theory Spec2Isabelle
  imports Complex_Main "HOL-Library.Log_Nat"
begin

section \<open>The sample-series generator (makeSeries)\<close>

text \<open>
  The generator is the function \<^verbatim>\<open>makeSeries\<close> that stands, with the same text, in
  all three source files. It reads two things from outside: the clock
  (\<^verbatim>\<open>Date.now()\<close>) and the random source (\<^verbatim>\<open>Math.random()\<close>). Both are read once
  for every generated point, inside the callback of \<^verbatim>\<open>map\<close>, so the model threads a
  world through the calls: the world holds what the k-th reading of the clock and the
  k-th draw return, and counts the readings and draws made so far.

  Counts are integers, as the contract of the generator has them (the type
  \<^verbatim>\<open>number\<close> of the source also has fractions, which are no array lengths either).
  A \<^verbatim>\<open>Date\<close> is represented by the time value in milliseconds handed to its
  constructor (the constructor keeps every value of a magnitude up to \<open>8.64 * 10^15\<close>;
  that it makes an invalid date of a larger one, which a series reaches only after more
  than two thousand million points, is left out). The time value
  \<^verbatim>\<open>Date.now() - i * 3600000\<close> is computed on integers, where the arithmetic of doubles
  is exact up to \<open>2^53\<close>. A draw of the random source is a double, written as the real
  number it stands for; the product \<^verbatim>\<open>Math.random() * 3000\<close> is the exact product
  rounded to the nearest double, as the multiplication of the language does.
\<close>

datatype error = RangeError | TypeError

record world =
  clock :: "nat \<Rightarrow> int"
  entropy :: "nat \<Rightarrow> real"
  ticks :: nat
  draws :: nat

definition Date_now :: "world \<Rightarrow> int \<times> world" where
  "Date_now w = (clock w (ticks w), w\<lparr>ticks := Suc (ticks w)\<rparr>)"

definition Math_random :: "world \<Rightarrow> real \<times> world" where
  "Math_random w = (entropy w (draws w), w\<lparr>draws := Suc (draws w)\<rparr>)"

text \<open>
  \<^verbatim>\<open>x | 0\<close> is the conversion to a signed 32-bit integer: the fraction is cut off
  towards zero, and the result wraps modulo \<open>2^32\<close> into \<open>[-2^31, 2^31)\<close>.
\<close>

definition ToInt32 :: "real \<Rightarrow> int" where
  "ToInt32 x =
     (let t = (if 0 \<le> x then \<lfloor>x\<rfloor> else \<lceil>x\<rceil>);
          m = t mod 4294967296
      in if 2147483648 \<le> m then m - 4294967296 else m)"

text \<open>
  The multiplication of two numbers of the language: the exact product, rounded to the
  nearest double, a tie going to the even one. The doubles around a real \<open>y\<close> with
  \<open>2^e \<le> |y| < 2^(e+1)\<close> are the multiples of \<open>2^(e-52)\<close>, and those of \<open>2^(-1074)\<close>
  below the smallest normal number. That a product beyond the largest double overflows
  is left out: the products taken here are below 3000.
\<close>

definition pow2 :: "int \<Rightarrow> real" where
  "pow2 e = (if 0 \<le> e then 2 ^ nat e else 1 / 2 ^ nat (- e))"

definition exponent :: "real \<Rightarrow> int" where
  "exponent y =
     (if 1 \<le> \<bar>y\<bar> then bitlen \<lfloor>\<bar>y\<bar>\<rfloor> - 1 else - bitlen (\<lceil>1 / \<bar>y\<bar>\<rceil> - 1))"

definition quantum :: "real \<Rightarrow> real" where
  "quantum y = pow2 (max (exponent y) (- 1022) - 52)"

definition roundTiesToEven :: "real \<Rightarrow> int" where
  "roundTiesToEven x =
     (let f = \<lfloor>x\<rfloor>; d = x - of_int f
      in if d < 1 / 2 then f else if 1 / 2 < d then f + 1 else if even f then f else f + 1)"

definition round_double :: "real \<Rightarrow> real" where
  "round_double y = quantum y * of_int (roundTiesToEven (y / quantum y))"

definition Number_multiply :: "real \<Rightarrow> real \<Rightarrow> real" where
  "Number_multiply x y = round_double (x * y)"

definition is_double :: "real \<Rightarrow> bool" where
  "is_double x = (round_double x = x \<and> \<bar>x\<bar> < pow2 1024)"

text \<open>
  \<^verbatim>\<open>Array(n).fill(v)\<close>: the constructor raises a RangeError unless \<open>n\<close> is an
  array length, an integer of \<open>[0, 2^32)\<close>; \<^verbatim>\<open>fill\<close> then sets every element.
\<close>

definition Array_fill :: "int \<Rightarrow> 'a \<Rightarrow> error + 'a list" where
  "Array_fill n v =
     (if 0 \<le> n \<and> n < 4294967296 then Inr (replicate (nat n) v) else Inl RangeError)"

text \<open>
  \<^verbatim>\<open>xs.map((x, i) => ...)\<close> with a callback that reads the world and may raise: the
  elements are visited from index 0 upwards, and the first exception ends the call.
\<close>

fun Array_map ::
  "('a \<Rightarrow> nat \<Rightarrow> world \<Rightarrow> error + ('b \<times> world)) \<Rightarrow> 'a list \<Rightarrow> nat \<Rightarrow> world
     \<Rightarrow> error + ('b list \<times> world)" where
  "Array_map f [] i w = Inr ([], w)"
| "Array_map f (x # xs) i w =
     (case f x i w of
        Inl e \<Rightarrow> Inl e
      | Inr (y, w') \<Rightarrow>
          (case Array_map f xs (Suc i) w' of
             Inl e \<Rightarrow> Inl e
           | Inr (ys, w'') \<Rightarrow> Inr (y # ys, w'')))"

text \<open>The object \<^verbatim>\<open>{date: ..., value: ...}\<close> of one point (the field \<open>val\<close> is the
  source's \<^verbatim>\<open>value\<close>), and a series \<^verbatim>\<open>{data: [[date, value], ...]}\<close>.\<close>

record datevalue =
  date :: int
  val :: int

record series =
  data :: "(int \<times> int) list"

text \<open>The callback of \<^verbatim>\<open>genDateValue\<close>: the date is evaluated before the value.\<close>

definition genPoint :: "nat \<Rightarrow> world \<Rightarrow> datevalue \<times> world" where
  "genPoint i w =
     (let (t, w1) = Date_now w;
          (r, w2) = Math_random w1
      in (\<lparr>date = t - int i * 3600000, val = max 250 (ToInt32 (Number_multiply r 3000))\<rparr>, w2))"

definition genDateValue :: "int \<Rightarrow> world \<Rightarrow> error + (datevalue list \<times> world)" where
  "genDateValue n w =
     (case Array_fill n (1::int) of
        Inl e \<Rightarrow> Inl e
      | Inr a \<Rightarrow> Array_map (\<lambda>d i w'. Inr (genPoint i w')) a 0 w)"

definition makeSeries :: "int \<Rightarrow> int \<Rightarrow> world \<Rightarrow> error + (series list \<times> world)" where
  "makeSeries seriesCount points w =
     (case Array_fill seriesCount \<lparr>data = []\<rparr> of
        Inl e \<Rightarrow> Inl e
      | Inr a \<Rightarrow>
          Array_map
            (\<lambda>s i w'.
               case genDateValue points w' of
                 Inl e \<Rightarrow> Inl e
               | Inr (vs, w'') \<Rightarrow> Inr (\<lparr>data = map (\<lambda>v. (date v, val v)) vs\<rparr>, w''))
            a 0 w)"

text \<open>Worlds to run the generator in: one whose clock stands still while the
  generator runs, one whose clock moves on by a millisecond at every reading, and one
  whose draws are the doubles written \<^verbatim>\<open>0.3\<close> and \<^verbatim>\<open>0.6836666666666666\<close> and then
  the largest double below 1.\<close>

definition still_world :: world where
  "still_world = \<lparr>clock = (\<lambda>k. 1700000000000), entropy = (\<lambda>k. 1 / 2), ticks = 0, draws = 0\<rparr>"


definition sampled_world :: world where
  "sampled_world =
     \<lparr>clock = (\<lambda>k. 1700000000000),
      entropy = (\<lambda>k. if k = 0 then 5404319552844595 / 18014398509481984
                     else if k = 1 then 3078960945245629 / 4503599627370496
                     else 9007199254740991 / 9007199254740992),
      ticks = 0, draws = 0\<rparr>"

text \<open>
  Closed forms, used to state what the generator returns: the world after \<open>k\<close> further
  points, and series number \<open>j\<close> of a run of series with \<open>p\<close> points each that
  starts in the world \<open>w\<close>.
\<close>

definition advance :: "world \<Rightarrow> nat \<Rightarrow> world" where
  "advance w k = w\<lparr>ticks := ticks w + k, draws := draws w + k\<rparr>"

definition pointAt :: "world \<Rightarrow> nat \<Rightarrow> nat \<Rightarrow> datevalue" where
  "pointAt w i k =
     \<lparr>date = clock w (ticks w + k) - int i * 3600000,
      val = max 250 (ToInt32 (Number_multiply (entropy w (draws w + k)) 3000))\<rparr>"

definition seriesAt :: "world \<Rightarrow> nat \<Rightarrow> nat \<Rightarrow> series" where
  "seriesAt w p j =
     \<lparr>data = map (\<lambda>k. (clock w (ticks w + j * p + k) - int k * 3600000,
                        max 250 (ToInt32 (Number_multiply (entropy w (draws w + j * p + k)) 3000)))) [0..<p]\<rparr>"

text \<open>
  What a call returned, without the world; the timestamps of a series; and the spec's
  words "each exactly one hour before the previous" for a list of timestamps.
\<close>

definition returned :: "error + ('a \<times> world) \<Rightarrow> error + 'a" where
  "returned r = map_sum id fst r"



section \<open>The options projection\<close>

text \<open>
  The component's properties, as the interface \<^verbatim>\<open>Props\<close> declares them. The three
  event callbacks are opaque functions of the caller: the model names them by a number.
\<close>

datatype ChartTypes = Line | Area | Bar | Heatmap | Radar

fun ChartTypes_value :: "ChartTypes \<Rightarrow> string" where
  "ChartTypes_value Line = ''line''"
| "ChartTypes_value Area = ''area''"
| "ChartTypes_value Bar = ''bar''"
| "ChartTypes_value Heatmap = ''heatmap''"
| "ChartTypes_value Radar = ''radar''"

datatype StrokeCurve = Smooth | Straight | Stepline

fun StrokeCurve_value :: "StrokeCurve \<Rightarrow> string" where
  "StrokeCurve_value Smooth = ''smooth''"
| "StrokeCurve_value Straight = ''straight''"
| "StrokeCurve_value Stepline = ''stepline''"

datatype FillType = Solid | Gradient | Pattern

fun FillType_value :: "FillType \<Rightarrow> string" where
  "FillType_value Solid = ''solid''"
| "FillType_value Gradient = ''gradient''"
| "FillType_value Pattern = ''pattern''"

record Props =
  width :: "real option"
  height :: "real option"
  points :: int
  seriesCount :: int
  chartType :: ChartTypes
  showToolbar :: bool
  showLegend :: bool
  showXaxis :: bool
  showYaxis :: bool
  isStacked :: bool
  isHorizontal :: bool
  colors :: "string list"
  palette :: "string option"
  showStroke :: bool
  stroke :: real
  strokeCurve :: StrokeCurve
  fillType :: FillType
  fillOpacity :: real
  onDataPointSelection :: "nat option"
  onDataPointMouseEnter :: "nat option"
  onDataPointMouseLeave :: "nat option"

definition defaultProps :: Props where
  "defaultProps =
     \<lparr>width = Some 800, height = Some 600, points = 5, seriesCount = 1, chartType = Area,
      showToolbar = True, showLegend = True, showXaxis = True, showYaxis = False,
      isStacked = False, isHorizontal = False, colors = [], palette = Some ''palette1'',
      showStroke = True, stroke = 5, strokeCurve = Smooth, fillType = Gradient,
      fillOpacity = 8 / 10, onDataPointSelection = None, onDataPointMouseEnter = None,
      onDataPointMouseLeave = None\<rparr>"

text \<open>
  The values the options object is built from. A function value is either the
  component's own \<^verbatim>\<open>mounted\<close> handler, which calls \<^verbatim>\<open>setMounted(true)\<close>, or one of the
  caller's callbacks.
\<close>

datatype jsfun = SetMounted | Callback nat

datatype jsval =
    JUndefined
  | JBool bool
  | JNum real
  | JStr string
  | JArr "jsval list"
  | JObj "(string \<times> jsval) list"
  | JFun jsfun

definition callback :: "nat option \<Rightarrow> jsval" where
  "callback c = (case c of None \<Rightarrow> JUndefined | Some k \<Rightarrow> JFun (Callback k))"

definition optional_string :: "string option \<Rightarrow> jsval" where
  "optional_string s = (case s of None \<Rightarrow> JUndefined | Some t \<Rightarrow> JStr t)"

subsection \<open>The regular expression of the colour resolution\<close>

text \<open>
  \<^verbatim>\<open>item.match(/rgba?\(.*\d\)/)\<close>: the leftmost place where \<^verbatim>\<open>rgb(\<close> or \<^verbatim>\<open>rgba(\<close>
  stands, followed on the same line by the longest text that ends in a digit and a
  closing parenthesis. The expression has no group and no \<^verbatim>\<open>g\<close> flag, so the result is
  \<^verbatim>\<open>null\<close> or an array that holds the matched text alone. Strings are lists of 8-bit
  characters; of the line terminators only LF and CR exist among them.
\<close>

definition isDigit :: "char \<Rightarrow> bool" where
  "isDigit c = (c \<in> set ''0123456789'')"

definition isLineTerminator :: "char \<Rightarrow> bool" where
  "isLineTerminator c = (c = CHR 0x0A \<or> c = CHR 0x0D)"

text \<open>\<^verbatim>\<open>.*\d\)\<close> on the rest of a line: the longest prefix that ends in a digit and
  \<^verbatim>\<open>)\<close>, as the greedy star finds it by giving characters back.\<close>

fun greedyDigitParen :: "string \<Rightarrow> string option" where
  "greedyDigitParen [] = None"
| "greedyDigitParen (c # cs) =
     (case greedyDigitParen cs of
        Some m \<Rightarrow> Some (c # m)
      | None \<Rightarrow>
          (case cs of
             [] \<Rightarrow> None
           | d # _ \<Rightarrow> if isDigit c \<and> d = CHR '')'' then Some [c, d] else None))"

definition startsWith :: "string \<Rightarrow> string \<Rightarrow> bool" where
  "startsWith s p = (take (length p) s = p)"

definition matchHere :: "string \<Rightarrow> string option" where
  "matchHere s =
     (if startsWith s ''rgba('' then
        map_option (\<lambda>m. ''rgba('' @ m) (greedyDigitParen (takeWhile (\<lambda>c. \<not> isLineTerminator c) (drop 5 s)))
      else if startsWith s ''rgb('' then
        map_option (\<lambda>m. ''rgb('' @ m) (greedyDigitParen (takeWhile (\<lambda>c. \<not> isLineTerminator c) (drop 4 s)))
      else None)"

fun String_match :: "string \<Rightarrow> string list option" where
  "String_match [] = None"
| "String_match (c # cs) =
     (case matchHere (c # cs) of
        Some m \<Rightarrow> Some [m]
      | None \<Rightarrow> String_match cs)"

subsection \<open>The options object\<close>

text \<open>
  The first callback of the colour list: \<^verbatim>\<open>item.match(...).pop()\<close> for an item that
  starts with \<^verbatim>\<open>var(\<close>. \<^verbatim>\<open>pop\<close> on \<^verbatim>\<open>null\<close> raises a TypeError.
\<close>

definition sharedColor :: "string \<Rightarrow> error + string" where
  "sharedColor item =
     (if startsWith item ''var('' then
        (case String_match item of
           None \<Rightarrow> Inl TypeError
         | Some ms \<Rightarrow> Inr (last ms))
      else Inr item)"

fun map_raising :: "('a \<Rightarrow> error + 'b) \<Rightarrow> 'a list \<Rightarrow> error + 'b list" where
  "map_raising f [] = Inr []"
| "map_raising f (x # xs) =
     (case f x of
        Inl e \<Rightarrow> Inl e
      | Inr y \<Rightarrow> (case map_raising f xs of Inl e \<Rightarrow> Inl e | Inr ys \<Rightarrow> Inr (y # ys)))"

text \<open>
  \<^verbatim>\<open>Color.toHexString(Color(d))\<close> belongs to the host's library: it is the parameter
  \<open>toHexString\<close> of the projection.
\<close>

definition options_colors :: "(string \<Rightarrow> string) \<Rightarrow> Props \<Rightarrow> error + jsval" where
  "options_colors toHexString props =
     (if length (colors props) > 0 \<and> palette props = Some ''custom'' then
        (case map_raising sharedColor (colors props) of
           Inl e \<Rightarrow> Inl e
         | Inr ds \<Rightarrow> Inr (JArr (map (\<lambda>d. JStr (toHexString d)) ds)))
      else Inr JUndefined)"

definition options :: "(string \<Rightarrow> string) \<Rightarrow> Props \<Rightarrow> error + jsval" where
  "options toHexString props =
     (case options_colors toHexString props of
        Inl e \<Rightarrow> Inl e
      | Inr cs \<Rightarrow>
          Inr (JObj
            [(''colors'', cs),
             (''theme'', JObj [(''palette'', optional_string (palette props))]),
             (''chart'', JObj
                [(''id'', JStr ''dogchart''),
                 (''type'', JStr (ChartTypes_value (chartType props))),
                 (''stacked'', JBool (isStacked props)),
                 (''toolbar'', JObj [(''show'', JBool (showToolbar props))]),
                 (''events'', JObj
                    [(''mounted'', JFun SetMounted),
                     (''dataPointSelection'', callback (onDataPointSelection props)),
                     (''dataPointMouseEnter'', callback (onDataPointMouseEnter props)),
                     (''dataPointMouseLeave'', callback (onDataPointMouseLeave props))])]),
             (''plotOptions'', JObj [(''bar'', JObj [(''horizontal'', JBool (isHorizontal props))])]),
             (''fill'', JObj
                [(''opacity'', JNum (fillOpacity props)),
                 (''type'', JStr (FillType_value (fillType props)))]),
             (''stroke'', JObj
                [(''show'', JBool (showStroke props)),
                 (''curve'', JStr (StrokeCurve_value (strokeCurve props))),
                 (''width'', JNum (stroke props))]),
             (''xaxis'', JObj
                [(''type'', JStr ''datetime''),
                 (''labels'', JObj [(''show'', JBool (showXaxis props))])]),
             (''yaxis'', JObj [(''show'', JBool (showYaxis props))]),
             (''dataLabels'', JObj [(''enabled'', JBool False)]),
             (''noData'', JObj [(''text'', JStr ''No Data'')]),
             (''legend'', JObj [(''show'', JBool (showLegend props))])]))"

text \<open>Reading a property, and a path of properties, of a value: what is not there
  reads as \<^verbatim>\<open>undefined\<close>.\<close>

fun getProp :: "jsval \<Rightarrow> string \<Rightarrow> jsval" where
  "getProp (JObj kvs) k = (case map_of kvs k of None \<Rightarrow> JUndefined | Some v \<Rightarrow> v)"
| "getProp _ k = JUndefined"

definition path :: "jsval \<Rightarrow> string list \<Rightarrow> jsval" where
  "path v ks = foldl getProp v ks"

fun ownKeys :: "jsval \<Rightarrow> string list" where
  "ownKeys (JObj kvs) = map fst kvs"
| "ownKeys _ = []"

fun without :: "string \<Rightarrow> jsval \<Rightarrow> jsval" where
  "without k (JObj kvs) = JObj (filter (\<lambda>kv. fst kv \<noteq> k) kvs)"
| "without k v = v"

section \<open>The component, in its two variants\<close>

text \<open>
  What one rendering of the component hands to the chart: the options, the series, the
  type and the size. \<^verbatim>\<open>Charting\<close> is the component as \<^verbatim>\<open>Charting.tsx\<close> and the longer
  unnamed file have it; \<^verbatim>\<open>Charting_bare\<close> is the component of the shorter unnamed file,
  whose options are the empty object. Both take the series from \<^verbatim>\<open>makeSeries\<close>, called
  before the options are built.
\<close>

record ChartElement =
  chart_options :: jsval
  chart_series :: "series list"
  chart_type :: ChartTypes
  chart_width :: "real option"
  chart_height :: "real option"

definition Charting ::
  "(string \<Rightarrow> string) \<Rightarrow> Props \<Rightarrow> world \<Rightarrow> error + (ChartElement \<times> world)" where
  "Charting toHexString props w =
     (case makeSeries (seriesCount props) (points props) w of
        Inl e \<Rightarrow> Inl e
      | Inr (ss, w') \<Rightarrow>
          (case options toHexString props of
             Inl e \<Rightarrow> Inl e
           | Inr opts \<Rightarrow>
               Inr (\<lparr>chart_options = opts, chart_series = ss, chart_type = chartType props,
                     chart_width = width props, chart_height = height props\<rparr>, w')))"

definition Charting_bare :: "Props \<Rightarrow> world \<Rightarrow> error + (ChartElement \<times> world)" where
  "Charting_bare props w =
     (case makeSeries (seriesCount props) (points props) w of
        Inl e \<Rightarrow> Inl e
      | Inr (ss, w') \<Rightarrow>
          Inr (\<lparr>chart_options = JObj [], chart_series = ss, chart_type = chartType props,
                chart_width = width props, chart_height = height props\<rparr>, w'))"

section \<open>The property controls\<close>

text \<open>
  The declaration handed to \<^verbatim>\<open>addPropertyControls\<close>, in the order of the source: for
  each property the kind of its control and, where the source gives one, its
  \<^verbatim>\<open>hidden\<close> function. The host hides a control when that function returns true.
\<close>

datatype ControlType = CEnum | CBoolean | CNumber | CArray | CColor

record control =
  ctype :: ControlType
  hidden :: "(Props \<Rightarrow> bool) option"

definition propertyControls :: "(string \<times> control) list" where
  "propertyControls =
     [(''chartType'', \<lparr>ctype = CEnum, hidden = None\<rparr>),
      (''isHorizontal'', \<lparr>ctype = CBoolean, hidden = Some (\<lambda>props. chartType props \<noteq> Bar)\<rparr>),
      (''points'', \<lparr>ctype = CNumber, hidden = None\<rparr>),
      (''seriesCount'', \<lparr>ctype = CNumber, hidden = None\<rparr>),
      (''fillType'', \<lparr>ctype = CEnum, hidden = None\<rparr>),
      (''fillOpacity'', \<lparr>ctype = CNumber, hidden = Some (\<lambda>props. fillType props \<noteq> Solid)\<rparr>),
      (''showStroke'', \<lparr>ctype = CBoolean, hidden = None\<rparr>),
      (''stroke'', \<lparr>ctype = CNumber, hidden = Some (\<lambda>props. showStroke props = False)\<rparr>),
      (''strokeCurve'', \<lparr>ctype = CEnum, hidden = None\<rparr>),
      (''palette'', \<lparr>ctype = CEnum, hidden = None\<rparr>),
      (''showXaxis'', \<lparr>ctype = CBoolean, hidden = None\<rparr>),
      (''showYaxis'', \<lparr>ctype = CBoolean, hidden = None\<rparr>),
      (''showLegend'', \<lparr>ctype = CBoolean, hidden = None\<rparr>),
      (''showToolbar'', \<lparr>ctype = CBoolean, hidden = None\<rparr>),
      (''isStacked'', \<lparr>ctype = CBoolean, hidden = None\<rparr>),
      (''colors'', \<lparr>ctype = CArray, hidden = Some (\<lambda>props. palette props \<noteq> Some ''custom'')\<rparr>)]"

definition isHidden :: "string \<Rightarrow> Props \<Rightarrow> bool" where
  "isHidden name props =
     (case map_of propertyControls name of
        None \<Rightarrow> False
      | Some c \<Rightarrow> (case hidden c of None \<Rightarrow> False | Some h \<Rightarrow> h props))"

section \<open>Configurations and observations used below\<close>

text \<open>
  Configurations with the custom palette: one whose colours are a hex colour and a
  shared colour as the host writes it, and three with a colour that starts with
  \<^verbatim>\<open>var(\<close> and holds no \<^verbatim>\<open>rgb\<close> or \<^verbatim>\<open>rgba\<close> text (alone, after a hex colour, and
  in a stacked bar chart). And the options a rendering hands to the chart, apart from
  the colours.
\<close>

definition custom_props :: Props where
  "custom_props =
     defaultProps\<lparr>palette := Some ''custom'',
       colors := [''#ff0000'', ''var(--token-abc, rgb(255, 0, 0))'']\<rparr>"

definition unmatched_props :: Props where
  "unmatched_props = defaultProps\<lparr>palette := Some ''custom'', colors := [''var(--primary)'']\<rparr>"

definition mixed_props :: Props where
  "mixed_props =
     defaultProps\<lparr>palette := Some ''custom'', colors := [''#ff0000'', ''var(--primary)'']\<rparr>"

definition bar_props :: Props where
  "bar_props =
     defaultProps\<lparr>chartType := Bar, isStacked := True, palette := Some ''custom'',
       colors := [''var(--brand-color)'']\<rparr>"

definition rest_of_options :: "error + (ChartElement \<times> world) \<Rightarrow> error + jsval" where
  "rest_of_options r = map_sum id (\<lambda>e. without ''colors'' (chart_options e)) (returned r)"

section \<open>What the generator returns\<close>

lemma advance_0: "advance w 0 = w"
  by (simp add: advance_def)

lemma advance_advance: "advance (advance w j) k = advance w (j + k)"
  by (simp add: advance_def add.assoc)

lemma advance_fields:
  "clock (advance w k) = clock w" "entropy (advance w k) = entropy w"
  "ticks (advance w k) = ticks w + k" "draws (advance w k) = draws w + k"
  by (simp_all add: advance_def)

lemma advance_funpow: "((\<lambda>v. advance v n) ^^ k) w = advance w (k * n)"
  by (induction k) (simp_all add: advance_0 advance_advance add.commute)

lemma Array_map_returns:
  assumes "\<And>x i v. f x i v = Inr (g i v, h v)"
  shows "Array_map f xs i0 w =
           Inr (map (\<lambda>k. g (i0 + k) ((h ^^ k) w)) [0..<length xs], (h ^^ length xs) w)"
proof (induction xs arbitrary: i0 w)
  case Nil
  show ?case by simp
next
  case (Cons x xs)
  show ?case
    apply (subst Array_map.simps)
    apply (subst assms)
    apply (simp add: Cons.IH map_upt_Suc funpow_swap1 del: upt_Suc)
    done
qed

lemma genPoint_eq: "genPoint i w = (pointAt w i 0, advance w 1)"
  by (simp add: genPoint_def Date_now_def Math_random_def pointAt_def advance_def)

lemma pointAt_advance: "pointAt (advance w j) i k = pointAt w i (j + k)"
  by (simp add: pointAt_def advance_fields add.assoc)

lemma genDateValue_ok:
  assumes "0 \<le> n" "n < 4294967296"
  shows "genDateValue n w =
           Inr (map (\<lambda>k. pointAt w k k) [0..<nat n], advance w (nat n))"
proof -
  have "Array_map (\<lambda>d i w'. Inr (genPoint i w')) (replicate (nat n) (1::int)) 0 w =
          Inr (map (\<lambda>k. pointAt (((\<lambda>v. advance v 1) ^^ k) w) (0 + k) 0) [0..<nat n],
               ((\<lambda>v. advance v 1) ^^ nat n) w)"
    using Array_map_returns [where f = "\<lambda>d i w'. Inr (genPoint i w')"
        and g = "\<lambda>i v. pointAt v i 0" and h = "\<lambda>v. advance v 1"
        and xs = "replicate (nat n) (1::int)" and ?i0.0 = 0 and w = w]
    by (simp add: genPoint_eq)
  then show ?thesis
    using assms
    by (simp add: genDateValue_def Array_fill_def advance_funpow pointAt_advance)
qed

lemma genDateValue_raises:
  "n < 0 \<or> 4294967296 \<le> n \<Longrightarrow> genDateValue n w = Inl RangeError"
  by (auto simp add: genDateValue_def Array_fill_def)

lemma makeSeries_ok:
  assumes "0 \<le> sc" "sc < 4294967296" "0 \<le> pc" "pc < 4294967296"
  shows "makeSeries sc pc w =
           Inr (map (seriesAt w (nat pc)) [0..<nat sc], advance w (nat sc * nat pc))"
proof -
  let ?f = "\<lambda>(s::series) (i::nat) w'.
               case genDateValue pc w' of
                 Inl e \<Rightarrow> Inl e
               | Inr (vs, w'') \<Rightarrow> Inr (\<lparr>data = map (\<lambda>v. (date v, val v)) vs\<rparr>, w'')"
  let ?g = "\<lambda>(i::nat) v. \<lparr>data = map (\<lambda>x. (date x, val x)) (map (\<lambda>k. pointAt v k k) [0..<nat pc])\<rparr>"
  have f: "?f x i v = Inr (?g i v, advance v (nat pc))" for x i v
    by (simp add: genDateValue_ok [OF assms(3,4)])
  have "Array_map ?f (replicate (nat sc) \<lparr>data = []\<rparr>) 0 w =
          Inr (map (\<lambda>k. ?g (0 + k) (((\<lambda>v. advance v (nat pc)) ^^ k) w)) [0..<nat sc],
               ((\<lambda>v. advance v (nat pc)) ^^ nat sc) w)"
    using Array_map_returns [where f = ?f and g = ?g and h = "\<lambda>v. advance v (nat pc)"
        and xs = "replicate (nat sc) \<lparr>data = []\<rparr>" and ?i0.0 = 0 and w = w, OF f]
    by simp
  then show ?thesis
    using assms(1,2)
    by (simp add: makeSeries_def Array_fill_def advance_funpow seriesAt_def pointAt_def
        advance_fields)
qed

lemma makeSeries_raises_series:
  "sc < 0 \<or> 4294967296 \<le> sc \<Longrightarrow> makeSeries sc pc w = Inl RangeError"
  by (auto simp add: makeSeries_def Array_fill_def)

lemma makeSeries_raises_points:
  assumes "0 < sc" "pc < 0 \<or> 4294967296 \<le> pc"
  shows "makeSeries sc pc w = Inl RangeError"
proof (cases "sc < 4294967296")
  case False
  then show ?thesis by (simp add: makeSeries_raises_series)
next
  case True
  from assms(1) obtain m where m: "nat sc = Suc m"
    by (cases "nat sc") auto
  show ?thesis
    using assms True
    by (simp add: makeSeries_def Array_fill_def m genDateValue_raises)
qed

lemma makeSeries_zero: "makeSeries 0 pc w = Inr ([], w)"
  by (simp add: makeSeries_def Array_fill_def)

lemma ToInt32_small:
  assumes "0 \<le> x" "x < 2147483648"
  shows "ToInt32 x = \<lfloor>x\<rfloor>"
proof -
  have a: "0 \<le> \<lfloor>x\<rfloor>" using assms(1) by simp
  have b: "\<lfloor>x\<rfloor> < 2147483648" using assms(2) by (simp add: floor_less_iff)
  then have c: "\<lfloor>x\<rfloor> < 4294967296" by linarith
  show ?thesis
    using assms(1) a b c by (simp add: ToInt32_def Let_def)
qed

lemma pow2_pos: "0 < pow2 e"
  by (simp add: pow2_def)

lemma quantum_pos: "0 < quantum y"
  by (simp add: quantum_def pow2_pos)

lemma roundTiesToEven_upper: "real_of_int (roundTiesToEven x) \<le> x + 1 / 2"
  unfolding roundTiesToEven_def Let_def by (auto; linarith)

lemma roundTiesToEven_lower: "x - 1 / 2 \<le> real_of_int (roundTiesToEven x)"
  unfolding roundTiesToEven_def Let_def by (auto; linarith)

lemma roundTiesToEven_below:
  assumes "x < real_of_int n + 1 / 2"
  shows "roundTiesToEven x \<le> n"
proof -
  have "real_of_int (roundTiesToEven x) < real_of_int n + 1"
    using roundTiesToEven_upper [of x] assms by linarith
  then show ?thesis by linarith
qed

lemma roundTiesToEven_nonneg:
  assumes "0 \<le> x"
  shows "0 \<le> roundTiesToEven x"
proof -
  have "- 1 < real_of_int (roundTiesToEven x)"
    using roundTiesToEven_lower [of x] assms by linarith
  then show ?thesis by linarith
qed

lemma round_double_nonneg:
  assumes "0 \<le> y"
  shows "0 \<le> round_double y"
proof -
  have "0 \<le> y / quantum y" using assms quantum_pos [of y] by simp
  then have "0 \<le> roundTiesToEven (y / quantum y)" by (rule roundTiesToEven_nonneg)
  then show ?thesis using quantum_pos [of y] by (simp add: round_double_def)
qed

lemma exponent_small:
  assumes "0 \<le> y" "y < 2048"
  shows "exponent y \<le> 10"
proof (cases "1 \<le> y")
  case True
  have "\<lfloor>y\<rfloor> < 2 ^ nat 11" using assms(2) by (simp add: floor_less_iff)
  then have "bitlen \<lfloor>y\<rfloor> \<le> 11" by (simp only: bitlen_le_iff_power) simp
  then show ?thesis using True assms(1) by (simp add: exponent_def)
next
  case False
  then show ?thesis
    using assms(1) bitlen_nonneg [of "\<lceil>1 / y\<rceil> - 1"] by (simp add: exponent_def)
qed

lemma exponent_2048:
  assumes "2048 \<le> y" "y < 4096"
  shows "exponent y = 11"
proof -
  have lt: "\<lfloor>y\<rfloor> < 2 ^ nat 12" using assms(2) by (simp add: floor_less_iff)
  have ge: "2 ^ nat 11 \<le> \<lfloor>y\<rfloor>" using assms(1) by (simp add: le_floor_iff)
  from lt have "bitlen \<lfloor>y\<rfloor> \<le> 12" by (simp only: bitlen_le_iff_power) simp
  moreover from ge have "12 \<le> bitlen \<lfloor>y\<rfloor>"
    using bitlen_ge_iff_power [of 12 "\<lfloor>y\<rfloor>"] by simp
  ultimately show ?thesis using assms(1) by (simp add: exponent_def)
qed

lemma round_double_below_2048:
  assumes "0 \<le> y" "y < 2048"
  shows "round_double y \<le> 2048"
proof -
  define j where "j = max (exponent y) (- 1022) - 52"
  have j: "j < 0" using exponent_small [OF assms] by (simp add: j_def)
  have q: "quantum y = 1 / 2 ^ nat (- j)" using j by (simp add: quantum_def pow2_def j_def)
  have "y / quantum y < real_of_int (2048 * 2 ^ nat (- j))"
    using assms(2) by (simp add: q)
  then have "roundTiesToEven (y / quantum y) \<le> 2048 * 2 ^ nat (- j)"
    by (intro roundTiesToEven_below) linarith
  then have "real_of_int (roundTiesToEven (y / quantum y)) \<le> 2048 * 2 ^ nat (- j)"
    by (metis of_int_le_iff of_int_mult of_int_numeral of_int_power)
  then show ?thesis
    by (simp add: round_double_def q field_simps)
qed

lemma round_double_below_3000:
  assumes "2048 \<le> y" "y \<le> 3000 - 3000 / 2 ^ 53"
  shows "round_double y < 3000"
proof -
  have "y < 4096" using assms(2) by simp
  with assms(1) have "exponent y = 11" by (rule exponent_2048)
  then have q: "quantum y = 1 / 2 ^ 41" by (simp add: quantum_def pow2_def)
  have "y / quantum y = y * 2199023255552" by (simp add: q)
  moreover have "y * 2199023255552 < real_of_int 6597069766655999 + 1 / 2"
    using assms(2) by simp
  ultimately have "y / quantum y < real_of_int 6597069766655999 + 1 / 2" by simp
  then have "roundTiesToEven (y / quantum y) \<le> 6597069766655999"
    by (rule roundTiesToEven_below)
  then have "real_of_int (roundTiesToEven (y / quantum y)) \<le> 6597069766655999"
    by linarith
  then show ?thesis by (simp add: round_double_def q)
qed

lemma double_below_one:
  assumes "is_double r" "0 \<le> r" "r < 1"
  shows "r \<le> 1 - 1 / 2 ^ 53"
proof (cases "r < 1 / 2")
  case True
  then show ?thesis by simp
next
  case False
  then have h: "1 / 2 \<le> r" by simp
  then have "1 / r \<le> 2" "1 < 1 / r" using assms(3) by (simp_all add: field_simps)
  then have "\<lceil>1 / r\<rceil> = 2" by (simp add: ceiling_eq_iff)
  moreover have "bitlen 1 = 1" by (simp add: bitlen_alt_def)
  ultimately have "exponent r = - 1" using assms(2,3) by (simp add: exponent_def)
  then have q: "quantum r = 1 / 2 ^ 53" by (simp add: quantum_def pow2_def)
  define n where "n = roundTiesToEven (r / quantum r)"
  from assms(1) have r: "r = real_of_int n / 9007199254740992"
    by (simp add: is_double_def round_double_def q n_def)
  with assms(3) have "real_of_int n < 9007199254740992" by simp
  then have "n < 9007199254740992" by linarith
  then have "real_of_int n \<le> 9007199254740991" by linarith
  then show ?thesis unfolding r by simp
qed

lemma product_below_3000:
  assumes "is_double r" "0 \<le> r" "r < 1"
  shows "0 \<le> Number_multiply r 3000" "Number_multiply r 3000 < 3000"
proof -
  have y: "0 \<le> r * 3000" using assms(2) by simp
  then show "0 \<le> Number_multiply r 3000"
    unfolding Number_multiply_def by (rule round_double_nonneg)
  have le: "r * 3000 \<le> 3000 - 3000 / 2 ^ 53"
    using double_below_one [OF assms] by simp
  show "Number_multiply r 3000 < 3000"
  proof (cases "r * 3000 < 2048")
    case True
    with y have "round_double (r * 3000) \<le> 2048" by (rule round_double_below_2048)
    then show ?thesis by (simp add: Number_multiply_def)
  next
    case False
    then have "2048 \<le> r * 3000" by simp
    then show ?thesis
      unfolding Number_multiply_def using le by (rule round_double_below_3000)
  qed
qed

lemma sample_range:
  assumes "is_double r" "0 \<le> r" "r < 1"
  shows "250 \<le> max 250 (ToInt32 (Number_multiply r 3000))"
    and "max 250 (ToInt32 (Number_multiply r 3000)) < 3000"
proof -
  have lo: "0 \<le> Number_multiply r 3000" and hi: "Number_multiply r 3000 < 3000"
    using assms by (rule product_below_3000)+
  from hi have "Number_multiply r 3000 < 2147483648" by linarith
  with lo have e: "ToInt32 (Number_multiply r 3000) = \<lfloor>Number_multiply r 3000\<rfloor>"
    by (rule ToInt32_small)
  have "\<lfloor>Number_multiply r 3000\<rfloor> < 3000" using hi by (simp add: floor_less_iff)
  then show "max 250 (ToInt32 (Number_multiply r 3000)) < 3000" by (simp add: e)
  show "250 \<le> max 250 (ToInt32 (Number_multiply r 3000))" by simp
qed








lemma makeSeries_Inr_cases:
  assumes "makeSeries sc pc w = Inr (ss, w')"
  shows "(sc = 0 \<and> ss = [] \<and> w' = w) \<or>
         (0 < sc \<and> sc < 4294967296 \<and> 0 \<le> pc \<and> pc < 4294967296 \<and>
          ss = map (seriesAt w (nat pc)) [0..<nat sc] \<and> w' = advance w (nat sc * nat pc))"
proof -
  have sc: "0 \<le> sc \<and> sc < 4294967296"
    using assms makeSeries_raises_series [of sc pc w] by fastforce
  show ?thesis
  proof (cases "sc = 0")
    case True
    then show ?thesis using assms by (simp add: makeSeries_zero)
  next
    case False
    then have pos: "0 < sc" using sc by simp
    have pc: "0 \<le> pc \<and> pc < 4294967296"
      using assms makeSeries_raises_points [OF pos, of pc w] by fastforce
    show ?thesis
      using assms pos sc pc by (simp add: makeSeries_ok)
  qed
qed

text \<open>
  Claim C1, amended. \<^verbatim>\<open>makeSeries(0, n)\<close> returns the empty series set for every
  \<open>n\<close>; for every series count in \<open>[0, 2^32)\<close>, \<^verbatim>\<open>makeSeries(n, 0)\<close> returns \<open>n\<close>
  series with an empty point list each; and for every series count and point count in
  \<open>[0, 2^32)\<close> the call returns exactly as many series as asked for, each with exactly
  as many points as asked for.
\<close>

theorem makeSeries_shape:
  "makeSeries 0 n w = Inr ([], w) \<and>
   (0 \<le> sc \<and> sc < 4294967296 \<longrightarrow>
      makeSeries sc 0 w = Inr (replicate (nat sc) \<lparr>data = []\<rparr>, w)) \<and>
   (0 \<le> sc \<and> sc < 4294967296 \<and> 0 \<le> pc \<and> pc < 4294967296 \<longrightarrow>
      (\<exists>ss w'. makeSeries sc pc w = Inr (ss, w') \<and> int (length ss) = sc \<and>
         (\<forall>s \<in> set ss. int (length (data s)) = pc)))"
proof (intro conjI impI)
  show "makeSeries 0 n w = Inr ([], w)" by (rule makeSeries_zero)
next
  assume a: "0 \<le> sc \<and> sc < 4294967296"
  have "seriesAt w 0 = (\<lambda>j. \<lparr>data = []\<rparr>)"
    by (simp add: seriesAt_def fun_eq_iff)
  then have "map (seriesAt w 0) [0..<nat sc] = replicate (nat sc) \<lparr>data = []\<rparr>"
    by (simp add: map_replicate_const)
  then show "makeSeries sc 0 w = Inr (replicate (nat sc) \<lparr>data = []\<rparr>, w)"
    using a by (simp add: makeSeries_ok advance_0)
next
  assume a: "0 \<le> sc \<and> sc < 4294967296 \<and> 0 \<le> pc \<and> pc < 4294967296"
  then have "makeSeries sc pc w =
      Inr (map (seriesAt w (nat pc)) [0..<nat sc], advance w (nat sc * nat pc))"
    by (simp add: makeSeries_ok)
  moreover have "int (length (map (seriesAt w (nat pc)) [0..<nat sc])) = sc"
    using a by simp
  moreover have "\<forall>s \<in> set (map (seriesAt w (nat pc)) [0..<nat sc]). int (length (data s)) = pc"
    using a by (simp add: seriesAt_def)
  ultimately show "\<exists>ss w'. makeSeries sc pc w = Inr (ss, w') \<and> int (length ss) = sc \<and>
         (\<forall>s \<in> set ss. int (length (data s)) = pc)"
    by blast
qed

text \<open>The three parts at concrete counts.\<close>

theorem makeSeries_shape_witness:
  "makeSeries 0 (- 7) still_world = Inr ([], still_world) \<and>
   makeSeries 4 0 still_world = Inr (replicate (nat 4) \<lparr>data = []\<rparr>, still_world) \<and>
   (\<exists>ss w'. makeSeries 2 3 still_world = Inr (ss, w') \<and> int (length ss) = 2 \<and>
         (\<forall>s \<in> set ss. int (length (data s)) = 3))"
  using makeSeries_shape [of "- 7" still_world 4 0]
    makeSeries_shape [of 0 still_world 2 3]
  by simp

text \<open>
  The claim as it was stated, for every non-negative count, fails at the series count
  \<open>2^32\<close>, which is no array length: \<^verbatim>\<open>Array(4294967296)\<close> raises.
\<close>

theorem makeSeries_count_counterexample:
  "returned (makeSeries 4294967296 0 still_world) = Inl RangeError"
  by (simp add: returned_def makeSeries_def Array_fill_def)

text \<open>
  Claim C3. With every draw of the random source a double of \<open>[0, 1)\<close>, every value of
  every point of every series that \<^verbatim>\<open>makeSeries\<close> returns is at least 250 and below
  3000.
\<close>

theorem makeSeries_values:
  assumes "\<forall>k. is_double (entropy w k) \<and> 0 \<le> entropy w k \<and> entropy w k < 1"
    and "makeSeries sc pc w = Inr (ss, w')"
    and "s \<in> set ss" and "(t, v) \<in> set (data s)"
  shows "250 \<le> v \<and> v < 3000"
proof -
  from makeSeries_Inr_cases [OF assms(2)] assms(3)
  have "ss = map (seriesAt w (nat pc)) [0..<nat sc]" by auto
  with assms(3) obtain j where "s = seriesAt w (nat pc) j" by auto
  with assms(4) obtain k where
    v: "v = max 250 (ToInt32 (Number_multiply (entropy w (draws w + j * nat pc + k)) 3000))"
    by (auto simp add: seriesAt_def)
  from assms(1) have "is_double (entropy w (draws w + j * nat pc + k))"
    and "0 \<le> entropy w (draws w + j * nat pc + k)"
    and "entropy w (draws w + j * nat pc + k) < 1" by simp_all
  then show ?thesis unfolding v by (simp only: sample_range)
qed

text \<open>
  A run of three points whose draws are the doubles \<^verbatim>\<open>0.3\<close>, \<^verbatim>\<open>0.6836666666666666\<close>
  and the largest one below 1: the rounded products are 900, 2051 and a double just
  below 3000, and the values are 900, 2051 and 2999.
\<close>

theorem makeSeries_values_witness:
  "returned (makeSeries 1 3 sampled_world) =
     Inr [\<lparr>data = [(1700000000000, 900), (1699996400000, 2051), (1699992800000, 2999)]\<rparr>] \<and>
   (250::int) \<le> 2999 \<and> (2999::int) < 3000"
proof -
  let ?s = "\<lparr>data = [(1700000000000::int, 900::int), (1699996400000, 2051),
                      (1699992800000, 2999)]\<rparr>"
  have d0: "is_double (5404319552844595 / 18014398509481984)" by code_simp
  have d1: "is_double (3078960945245629 / 4503599627370496)" by code_simp
  have d2: "is_double (9007199254740991 / 9007199254740992)" by code_simp
  have h: "\<forall>k. is_double (entropy sampled_world k) \<and> 0 \<le> entropy sampled_world k \<and>
             entropy sampled_world k < 1"
    by (simp add: sampled_world_def d0 d1 d2)
  have n0: "Number_multiply (5404319552844595 / 18014398509481984) 3000 = 900"
    by code_simp
  have n1: "Number_multiply (3078960945245629 / 4503599627370496) 3000 = 2051"
    by code_simp
  have n2: "Number_multiply (9007199254740991 / 9007199254740992) 3000 =
              6597069766655999 / 2199023255552"
    by code_simp
  have t: "ToInt32 900 = 900" "ToInt32 2051 = 2051"
    "ToInt32 (6597069766655999 / 2199023255552) = 2999"
    by (simp_all add: ToInt32_def)
  have u: "[0..<nat 3] = [0, Suc 0, Suc (Suc 0)]" by (simp add: eval_nat_numeral)
  have "seriesAt sampled_world (nat 3) 0 = ?s"
    unfolding seriesAt_def u by (simp add: sampled_world_def n0 n1 n2 t)
  moreover have "makeSeries 1 3 sampled_world =
      Inr (map (seriesAt sampled_world (nat 3)) [0..<nat 1], advance sampled_world (nat 1 * nat 3))"
    by (rule makeSeries_ok) simp_all
  ultimately have m: "makeSeries 1 3 sampled_world = Inr ([?s], advance sampled_world (nat 1 * nat 3))"
    by simp
  then have r: "returned (makeSeries 1 3 sampled_world) = Inr [?s]"
    by (simp add: returned_def)
  have s: "?s \<in> set [?s]" by simp
  have p: "(1699992800000, 2999) \<in> set (data ?s)" by simp
  from makeSeries_values [OF h m s p] r show ?thesis by simp
qed

text \<open>
  Claim C10, amended. For every negative series count, and for every negative point
  count together with a series count other than zero, \<^verbatim>\<open>makeSeries\<close> raises a
  RangeError and clamps nothing. With the series count zero the callback that builds
  the points never runs, and the call returns the empty series set whatever the point
  count is.
\<close>

theorem makeSeries_negative:
  "makeSeries 0 pc w = Inr ([], w) \<and>
   (sc < 0 \<or> (pc < 0 \<and> sc \<noteq> 0) \<longrightarrow> makeSeries sc pc w = Inl RangeError)"
proof (intro conjI impI)
  show "makeSeries 0 pc w = Inr ([], w)" by (rule makeSeries_zero)
next
  assume a: "sc < 0 \<or> (pc < 0 \<and> sc \<noteq> 0)"
  show "makeSeries sc pc w = Inl RangeError"
  proof (cases "sc < 0")
    case True
    then show ?thesis by (simp add: makeSeries_raises_series)
  next
    case False
    with a have "0 < sc" "pc < 0 \<or> 4294967296 \<le> pc" by auto
    then show ?thesis by (rule makeSeries_raises_points)
  qed
qed

text \<open>The three cases at concrete counts.\<close>

theorem makeSeries_negative_witness:
  "makeSeries 0 (- 1) still_world = Inr ([], still_world) \<and>
   makeSeries (- 1) 5 still_world = Inl RangeError \<and>
   makeSeries 3 (- 2) still_world = Inl RangeError"
  using makeSeries_negative [of "- 1" still_world "- 1"]
    makeSeries_negative [of 5 still_world "- 1"]
    makeSeries_negative [of "- 2" still_world 3]
  by simp

text \<open>
  The claim as it was stated fails for the series count zero and the point count \<open>-1\<close>:
  the call returns, with no series.
\<close>

theorem makeSeries_negative_counterexample:
  "returned (makeSeries 0 (- 1) still_world) = Inr []"
  by (simp add: returned_def makeSeries_def Array_fill_def)










section \<open>What the projection, the controls and the two variants do\<close>

lemma map_raising_returns:
  "\<forall>x \<in> set xs. \<exists>y. f x = Inr y \<Longrightarrow> \<exists>ys. map_raising f xs = Inr ys"
  by (induction xs) (auto split: sum.splits)

lemma sharedColor_returns:
  "(startsWith c ''var('' \<longrightarrow> String_match c \<noteq> None) \<Longrightarrow> \<exists>y. sharedColor c = Inr y"
  by (auto simp add: sharedColor_def split: option.splits)

lemma options_colors_off:
  "\<not> (palette p = Some ''custom'' \<and> colors p \<noteq> []) \<Longrightarrow> options_colors h p = Inr JUndefined"
  by (auto simp add: options_colors_def)

lemma options_colors_returns:
  assumes "palette p = Some ''custom''" "colors p \<noteq> []"
    and "\<forall>c \<in> set (colors p). startsWith c ''var('' \<longrightarrow> String_match c \<noteq> None"
  shows "\<exists>v. options_colors h p = Inr v"
proof -
  from assms(3) have "\<forall>c \<in> set (colors p). \<exists>y. sharedColor c = Inr y"
    by (blast intro: sharedColor_returns)
  then obtain ds where "map_raising sharedColor (colors p) = Inr ds"
    using map_raising_returns by blast
  then show ?thesis using assms(1,2) by (simp add: options_colors_def)
qed

lemma options_colors_field:
  "options h p = Inr opts \<Longrightarrow> options_colors h p = Inr (getProp opts ''colors'')"
  by (auto simp add: options_def split: sum.splits)

lemma options_returns:
  "options_colors h p = Inr v \<Longrightarrow> \<exists>opts. options h p = Inr opts \<and> getProp opts ''colors'' = v"
  by (simp add: options_def)

lemma map_raising_entries: "map_raising f xs = Inr ys \<Longrightarrow> map f xs = map Inr ys"
  by (induction xs arbitrary: ys) (auto split: sum.splits)

text \<open>
  What the projection does wherever it returns options. The colours are undefined
  unless the palette is \<^verbatim>\<open>custom\<close> and the colour list is not empty; then they are the
  list, in the order of the configuration, of what the colour conversion makes of the
  result of the first callback for each configured colour. Every other field is the
  configured one, unchanged, or the fixed constant. And the projection does return
  options unless the palette is \<^verbatim>\<open>custom\<close> and a colour that starts with \<^verbatim>\<open>var(\<close>
  holds no match of the regular expression.
\<close>

lemma options_colors_when_returned:
  assumes "options h p = Inr opts"
  shows "if palette p = Some ''custom'' \<and> colors p \<noteq> []
         then \<exists>ds. map sharedColor (colors p) = map Inr ds \<and>
                getProp opts ''colors'' = JArr (map (\<lambda>d. JStr (h d)) ds)
         else getProp opts ''colors'' = JUndefined"
proof -
  from assms have c: "options_colors h p = Inr (getProp opts ''colors'')"
    by (rule options_colors_field)
  show ?thesis
  proof (cases "palette p = Some ''custom'' \<and> colors p \<noteq> []")
    case True
    with c obtain ds where "map_raising sharedColor (colors p) = Inr ds"
      and "getProp opts ''colors'' = JArr (map (\<lambda>d. JStr (h d)) ds)"
      by (auto simp add: options_colors_def split: sum.splits)
    with True map_raising_entries show ?thesis by fastforce
  next
    case False
    from options_colors_off [OF False, of h] c have "getProp opts ''colors'' = JUndefined"
      by simp
    with False show ?thesis by simp
  qed
qed

lemma options_colors_custom:
  "map_sum id (\<lambda>opts. getProp opts ''colors'') (options id custom_props) =
     Inr (JArr [JStr ''#ff0000'', JStr ''rgb(255, 0, 0)''])"
  unfolding custom_props_def by code_simp

lemma options_returns_elsewhere:
  assumes "palette p = Some ''custom'' \<and> colors p \<noteq> [] \<longrightarrow>
    (\<forall>c \<in> set (colors p). startsWith c ''var('' \<longrightarrow> String_match c \<noteq> None)"
  shows "\<exists>opts. options h p = Inr opts"
proof (cases "palette p = Some ''custom'' \<and> colors p \<noteq> []")
  case True
  with assms obtain v where "options_colors h p = Inr v"
    using options_colors_returns by blast
  then show ?thesis using options_returns by blast
next
  case False
  then have "options_colors h p = Inr JUndefined" by (rule options_colors_off)
  then show ?thesis using options_returns by blast
qed

lemma options_fields:
  assumes "options h p = Inr opts"
  shows "path opts [''chart'', ''type''] = JStr (ChartTypes_value (chartType p)) \<and>
         path opts [''chart'', ''stacked''] = JBool (isStacked p) \<and>
         path opts [''chart'', ''toolbar'', ''show''] = JBool (showToolbar p) \<and>
         path opts [''legend'', ''show''] = JBool (showLegend p) \<and>
         path opts [''yaxis'', ''show''] = JBool (showYaxis p) \<and>
         path opts [''xaxis'', ''labels'', ''show''] = JBool (showXaxis p) \<and>
         path opts [''xaxis'', ''type''] = JStr ''datetime'' \<and>
         path opts [''plotOptions'', ''bar'', ''horizontal''] = JBool (isHorizontal p) \<and>
         path opts [''fill'', ''opacity''] = JNum (fillOpacity p) \<and>
         path opts [''fill'', ''type''] = JStr (FillType_value (fillType p)) \<and>
         path opts [''stroke'', ''show''] = JBool (showStroke p) \<and>
         path opts [''stroke'', ''curve''] = JStr (StrokeCurve_value (strokeCurve p)) \<and>
         path opts [''stroke'', ''width''] = JNum (stroke p) \<and>
         path opts [''dataLabels'', ''enabled''] = JBool False \<and>
         path opts [''noData'', ''text''] = JStr ''No Data'' \<and>
         path opts [''theme'', ''palette''] = optional_string (palette p)"
  using assms unfolding options_def path_def
  by (auto split: sum.splits)


text \<open>
  Claim C4 says that the options carry a resolved colour list exactly when the palette
  is \<^verbatim>\<open>custom\<close> and the colour list is not empty. The code does not give one in every
  such configuration: with the custom palette and the colours \<^verbatim>\<open>#ff0000\<close> and
  \<^verbatim>\<open>var(--primary)\<close> the colour expression raises a TypeError, and no options, with or
  without colours, are built.
\<close>

theorem options_colors_unmatched:
  "palette mixed_props = Some ''custom'' \<and> colors mixed_props \<noteq> [] \<and>
   options_colors toHexString mixed_props = Inl TypeError \<and>
   options toHexString mixed_props = Inl TypeError"
  unfolding mixed_props_def by code_simp

text \<open>
  Claim C5 says that an entry which starts with \<^verbatim>\<open>var(\<close> and holds no \<^verbatim>\<open>rgb\<close> or
  \<^verbatim>\<open>rgba\<close> text is passed through as it is. The code raises instead: for
  \<^verbatim>\<open>var(--primary)\<close> the match is \<^verbatim>\<open>null\<close>, and \<^verbatim>\<open>pop\<close> on it is a TypeError.
\<close>

theorem sharedColor_unmatched:
  "sharedColor ''var(--primary)'' = Inl TypeError"
  by code_simp

text \<open>
  Claim C6 says that the projection places the fields for every configuration. The
  code places none of them for a stacked bar chart with the custom palette and the
  colour \<^verbatim>\<open>var(--brand-color)\<close>: the TypeError of the colour expression ends the
  evaluation of the options object, and neither the chart type nor any other field is
  there to read.
\<close>

theorem options_fields_unmatched:
  "chartType bar_props = Bar \<and> isStacked bar_props \<and>
   map_sum id (\<lambda>opts. path opts [''chart'', ''type'']) (options toHexString bar_props) =
     Inl TypeError \<and>
   map_sum id (\<lambda>opts. path opts [''chart'', ''stacked'']) (options toHexString bar_props) =
     Inl TypeError"
  unfolding bar_props_def by code_simp

text \<open>
  Claim C7 says that the projection is deterministic and total. It is a function of the
  configuration and of the host's colour conversion alone, but it is not total: with
  the custom palette and the single colour \<^verbatim>\<open>var(--primary)\<close> it raises a TypeError
  and returns no options, whatever the colour conversion is.
\<close>

theorem options_unmatched:
  "options toHexString unmatched_props = Inl TypeError"
  unfolding unmatched_props_def by code_simp

text \<open>
  Claim C8. The control of the orientation is hidden whenever the chart type is not
  \<^verbatim>\<open>bar\<close>, the control of the fill opacity whenever the fill type is not \<^verbatim>\<open>solid\<close>,
  the control of the stroke width whenever the stroke is not shown, and the control of
  the colour list whenever the palette is not \<^verbatim>\<open>custom\<close>.
\<close>

theorem controls_hidden:
  "(chartType p \<noteq> Bar \<longrightarrow> isHidden ''isHorizontal'' p) \<and>
   (fillType p \<noteq> Solid \<longrightarrow> isHidden ''fillOpacity'' p) \<and>
   (\<not> showStroke p \<longrightarrow> isHidden ''stroke'' p) \<and>
   (palette p \<noteq> Some ''custom'' \<longrightarrow> isHidden ''colors'' p)"
  by (simp add: isHidden_def propertyControls_def)

text \<open>The default configuration with the stroke switched off hides all four.\<close>

theorem controls_hidden_witness:
  "isHidden ''isHorizontal'' (defaultProps\<lparr>showStroke := False\<rparr>) \<and>
   isHidden ''fillOpacity'' (defaultProps\<lparr>showStroke := False\<rparr>) \<and>
   isHidden ''stroke'' (defaultProps\<lparr>showStroke := False\<rparr>) \<and>
   isHidden ''colors'' (defaultProps\<lparr>showStroke := False\<rparr>)"
proof -
  have "chartType (defaultProps\<lparr>showStroke := False\<rparr>) \<noteq> Bar"
    and "fillType (defaultProps\<lparr>showStroke := False\<rparr>) \<noteq> Solid"
    and "\<not> showStroke (defaultProps\<lparr>showStroke := False\<rparr>)"
    and "palette (defaultProps\<lparr>showStroke := False\<rparr>) \<noteq> Some ''custom''"
    by (simp_all add: defaultProps_def)
  with controls_hidden [of "defaultProps\<lparr>showStroke := False\<rparr>"] show ?thesis by blast
qed

lemma options_ownKeys:
  "options h p = Inr opts \<Longrightarrow>
     ownKeys opts = [''colors'', ''theme'', ''chart'', ''plotOptions'', ''fill'', ''stroke'',
       ''xaxis'', ''yaxis'', ''dataLabels'', ''noData'', ''legend'']"
  by (auto simp add: options_def split: sum.splits)

lemma options_rest_ownKeys:
  "options h p = Inr opts \<Longrightarrow>
     ownKeys (without ''colors'' opts) = [''theme'', ''chart'', ''plotOptions'', ''fill'',
       ''stroke'', ''xaxis'', ''yaxis'', ''dataLabels'', ''noData'', ''legend'']"
  by (auto simp add: options_def split: sum.splits)

text \<open>
  Claim C9, amended. The options of the shorter variant are the empty object. Whenever
  the full variant renders, the shorter one renders too, in the same world and with the
  same series, chart type and size; its options are empty where the full variant's
  hold the eleven sections of the projection. And whenever the shorter variant renders
  and the projection returns, the full variant renders the same with the projected
  options in place of the empty object.
\<close>

theorem variants_compared:
  "(Charting_bare p w = Inr (b, w1) \<longrightarrow> chart_options b = JObj []) \<and>
   (Charting h p w = Inr (a, w2) \<longrightarrow>
      (\<exists>c. Charting_bare p w = Inr (c, w2) \<and> chart_series c = chart_series a \<and>
         chart_type c = chart_type a \<and> chart_width c = chart_width a \<and>
         chart_height c = chart_height a \<and> chart_options c = JObj [] \<and>
         ownKeys (chart_options a) =
           [''colors'', ''theme'', ''chart'', ''plotOptions'', ''fill'', ''stroke'',
            ''xaxis'', ''yaxis'', ''dataLabels'', ''noData'', ''legend''])) \<and>
   (Charting_bare p w = Inr (b, w1) \<and> options h p = Inr opts \<longrightarrow>
      Charting h p w = Inr (b\<lparr>chart_options := opts\<rparr>, w1))"
proof (intro conjI impI)
  assume "Charting_bare p w = Inr (b, w1)"
  then show "chart_options b = JObj []"
    by (auto simp add: Charting_bare_def split: sum.splits)
next
  assume a: "Charting h p w = Inr (a, w2)"
  then obtain ss opts where m: "makeSeries (seriesCount p) (points p) w = Inr (ss, w2)"
    and o: "options h p = Inr opts"
    and e: "a = \<lparr>chart_options = opts, chart_series = ss, chart_type = chartType p,
                 chart_width = width p, chart_height = height p\<rparr>"
    by (auto simp add: Charting_def split: sum.splits)
  from options_ownKeys [OF o] m e
  show "\<exists>c. Charting_bare p w = Inr (c, w2) \<and> chart_series c = chart_series a \<and>
         chart_type c = chart_type a \<and> chart_width c = chart_width a \<and>
         chart_height c = chart_height a \<and> chart_options c = JObj [] \<and>
         ownKeys (chart_options a) =
           [''colors'', ''theme'', ''chart'', ''plotOptions'', ''fill'', ''stroke'',
            ''xaxis'', ''yaxis'', ''dataLabels'', ''noData'', ''legend'']"
    by (simp add: Charting_bare_def)
next
  assume "Charting_bare p w = Inr (b, w1) \<and> options h p = Inr opts"
  then show "Charting h p w = Inr (b\<lparr>chart_options := opts\<rparr>, w1)"
    by (auto simp add: Charting_bare_def Charting_def split: sum.splits)
qed

text \<open>Both variants on the default configuration.\<close>

theorem variants_compared_witness:
  "\<exists>a c w'. Charting id defaultProps still_world = Inr (a, w') \<and>
     Charting_bare defaultProps still_world = Inr (c, w') \<and>
     chart_series c = chart_series a \<and> length (chart_series a) = 1 \<and>
     chart_options c = JObj [] \<and>
     ownKeys (chart_options a) =
       [''colors'', ''theme'', ''chart'', ''plotOptions'', ''fill'', ''stroke'',
        ''xaxis'', ''yaxis'', ''dataLabels'', ''noData'', ''legend'']"
proof -
  have "makeSeries 1 5 still_world =
          Inr (map (seriesAt still_world (nat 5)) [0..<nat 1], advance still_world (nat 1 * nat 5))"
    by (rule makeSeries_ok) simp_all
  moreover have "options_colors id defaultProps = Inr JUndefined"
    by (simp add: options_colors_def defaultProps_def)
  then obtain opts where "options id defaultProps = Inr opts"
    using options_returns by blast
  ultimately obtain a w' where a: "Charting id defaultProps still_world = Inr (a, w')"
    and l: "length (chart_series a) = 1"
    by (simp add: Charting_def defaultProps_def)
  from variants_compared [where p = defaultProps and w = still_world and h = id and a = a
      and ?w2.0 = w' and b = a and ?w1.0 = w' and opts = JUndefined] a
  obtain c where "Charting_bare defaultProps still_world = Inr (c, w')"
    and "chart_series c = chart_series a" and "chart_options c = JObj []"
    and "ownKeys (chart_options a) =
       [''colors'', ''theme'', ''chart'', ''plotOptions'', ''fill'', ''stroke'',
        ''xaxis'', ''yaxis'', ''dataLabels'', ''noData'', ''legend'']"
    by blast
  with a l show ?thesis by blast
qed

text \<open>
  The claim as it was stated fails on the default configuration: with the colours left
  out, the options of the shorter variant are still the empty object, and those of the
  full variant hold ten sections.
\<close>

theorem variants_compared_counterexample:
  "rest_of_options (Charting_bare defaultProps still_world) = Inr (JObj []) \<and>
   map_sum id ownKeys (rest_of_options (Charting id defaultProps still_world)) =
     Inr [''theme'', ''chart'', ''plotOptions'', ''fill'', ''stroke'',
          ''xaxis'', ''yaxis'', ''dataLabels'', ''noData'', ''legend'']"
proof -
  have m: "makeSeries 1 5 still_world =
          Inr (map (seriesAt still_world (nat 5)) [0..<nat 1], advance still_world (nat 1 * nat 5))"
    by (rule makeSeries_ok) simp_all
  have n: "seriesCount defaultProps = 1" "points defaultProps = 5"
    by (simp_all add: defaultProps_def)
  have "options_colors id defaultProps = Inr JUndefined"
    by (simp add: options_colors_def defaultProps_def)
  then obtain opts where o: "options id defaultProps = Inr opts"
    using options_returns by blast
  have b: "rest_of_options (Charting_bare defaultProps still_world) = Inr (JObj [])"
    by (simp add: rest_of_options_def returned_def Charting_bare_def defaultProps_def m)
  have f: "map_sum id ownKeys (rest_of_options (Charting id defaultProps still_world)) =
     Inr [''theme'', ''chart'', ''plotOptions'', ''fill'', ''stroke'',
          ''xaxis'', ''yaxis'', ''dataLabels'', ''noData'', ''legend'']"
    by (simp add: rest_of_options_def returned_def Charting_def n m o options_rest_ownKeys [OF o])
  from b f show ?thesis by simp
qed

end
